theory Spec2Isabelle
  imports Complex_Main
begin

section \<open>The interactive world map of \<^verbatim>\<open>src/Script/map.js\<close>\<close>

text \<open>
  The script keeps a pan/zoom transform in module-level variables and updates it from
  button, mouse, wheel, touch and keyboard handlers. The model below passes these
  variables around as one record, the handlers being functions from the record to the
  updated record.

  Numbers: JavaScript numbers are IEEE doubles. They are idealised here as \<^typ>\<open>real\<close>, so
  \<open>+\<close>, \<open>-\<close>, \<open>*\<close> and \<open>/\<close> are exact and there is neither rounding nor \<open>NaN\<close>.
  \<open>x / 0\<close> is \<open>0\<close> in HOL and \<open>Infinity\<close> or \<open>NaN\<close> in the script: the one division of the
  script divides by \<open>scale\<close>, and every statement that depends on it assumes \<open>scale \<noteq> 0\<close>.

  What the browser supplies (the elements found by \<open>getElementById\<close>, the bounding boxes,
  the size of the window, the events) is a parameter of the functions that read it.
\<close>

subsection \<open>Constants and module state (lines 11-31)\<close>

definition MIN_SCALE :: real where "MIN_SCALE = 1 / 2"
definition MAX_SCALE :: real where "MAX_SCALE = 5"
definition ZOOM_STEP :: real where "ZOOM_STEP = 1 / 5"

text \<open>\<open>PAN_STEP\<close> is local to \<open>onKeyDown\<close> (line 174).\<close>

definition PAN_STEP :: real where "PAN_STEP = 30"

text \<open>
  What the script writes to an element. \<open>style.transform\<close> is the string
  \<open>translate(Xpx, Ypx) scale(S)\<close>, kept as its three numbers; \<open>textContent\<close> is the string
  \<open>Zoom: N%\<close>, kept as \<open>N\<close>; \<open>listeners\<close> are the pairs of event type and handler passed
  to \<open>addEventListener\<close>.
\<close>

datatype css_transform = Translate_Scale real real real

record element =
  style_transform :: "css_transform option"
  textContent :: "int option"
  classList :: "string list"
  listeners :: "(string \<times> string) list"

record viewer =
  scale :: real
  translateX :: real
  translateY :: real
  isDragging :: bool
  dragStartX :: real
  dragStartY :: real
  dragOriginX :: real
  dragOriginY :: real
  lastPinchDist :: real
  mapContainer :: "element option"
  mapWrapper :: "element option"
  zoomDisplay :: "element option"
  windowListeners :: "(string \<times> string) list"
  documentListeners :: "(string \<times> string) list"

text \<open>The state when the script has been loaded and \<open>init\<close> has not run yet.\<close>

definition initial :: viewer where
  "initial = \<lparr> scale = 1, translateX = 0, translateY = 0, isDragging = False,
     dragStartX = 0, dragStartY = 0, dragOriginX = 0, dragOriginY = 0,
     lastPinchDist = 0, mapContainer = None, mapWrapper = None, zoomDisplay = None,
     windowListeners = [], documentListeners = [] \<rparr>"

subsection \<open>The browser's side\<close>

record rect =
  rect_left :: real
  rect_top :: real
  rect_width :: real
  rect_height :: real

text \<open>
  The values the handlers read from the browser while they run: the result of
  \<open>getBoundingClientRect()\<close> on the wrapper and on the container, and the size of the window.
\<close>

record env =
  wrapperRect :: rect
  containerRect :: rect
  innerWidth :: real
  innerHeight :: real

text \<open>The three lookups of \<open>init\<close>; \<open>None\<close> is \<open>null\<close>.\<close>

record document =
  elem_mapContainer :: "element option"
  elem_mapWrapper :: "element option"
  elem_zoomLevel :: "element option"

record pointer =
  clientX :: real
  clientY :: real

record mouse_event = pointer +
  button :: int

record wheel_event = pointer +
  deltaY :: real

record touch_event =
  touches :: "pointer list"

record key_event =
  key :: string

text \<open>
  A handler that dereferences \<open>mapContainer\<close> while it is \<open>undefined\<close> throws a
  \<open>TypeError\<close>; the assignments made before the throw stay. Such a handler returns
  \<open>Inl\<close> of the error and the state at the throw, or \<open>Inr\<close> of the final state and of
  whether \<open>preventDefault()\<close> was called.
\<close>

datatype error = TypeError

type_synonym handled = "error \<times> viewer + viewer \<times> bool"

fun state_of :: "handled \<Rightarrow> viewer" where
  "state_of (Inl (e, s)) = s"
| "state_of (Inr (s, p)) = s"

subsection \<open>Rendering and the zoom primitive (lines 34-65)\<close>

text \<open>\<open>Math.round\<close> rounds to the nearest integer, a half upwards.\<close>

definition Math_round :: "real \<Rightarrow> int" where
  "Math_round x = \<lfloor>x + 1 / 2\<rfloor>"

definition applyTransform :: "viewer \<Rightarrow> viewer" where
  "applyTransform s =
     (case mapWrapper s of
        None \<Rightarrow> s
      | Some w \<Rightarrow>
          let s1 = s\<lparr>mapWrapper := Some (w\<lparr>style_transform :=
                      Some (Translate_Scale (translateX s) (translateY s) (scale s))\<rparr>)\<rparr>
          in (case zoomDisplay s1 of
                None \<Rightarrow> s1
              | Some z \<Rightarrow>
                  s1\<lparr>zoomDisplay := Some (z\<lparr>textContent := Some (Math_round (scale s1 * 100))\<rparr>)\<rparr>))"

definition clamp :: "real \<Rightarrow> real \<Rightarrow> real \<Rightarrow> real" where
  "clamp val mn mx = min (max val mn) mx"

definition zoomAround :: "env \<Rightarrow> real \<Rightarrow> real \<Rightarrow> real \<Rightarrow> viewer \<Rightarrow> viewer" where
  "zoomAround b newScale cx cy s =
     (case mapWrapper s of
        None \<Rightarrow> s
      | Some w \<Rightarrow>
          let r = wrapperRect b;
              originX = cx - rect_left r;
              originY = cy - rect_top r;
              scaleDelta = newScale / scale s
          in applyTransform
               (s\<lparr>translateX := cx - (rect_left r + originX * scaleDelta),
                  translateY := cy - (rect_top r + originY * scaleDelta),
                  scale := newScale\<rparr>))"

subsection \<open>The public operations (lines 69-89)\<close>

definition centre_rect :: "env \<Rightarrow> viewer \<Rightarrow> rect" where
  "centre_rect b s =
     (case mapContainer s of
        Some c \<Rightarrow> containerRect b
      | None \<Rightarrow> \<lparr>rect_left = 0, rect_top = 0,
                  rect_width = innerWidth b, rect_height = innerHeight b\<rparr>)"

definition zoomIn :: "env \<Rightarrow> viewer \<Rightarrow> viewer" where
  "zoomIn b s =
     (let newScale = clamp (scale s + ZOOM_STEP) MIN_SCALE MAX_SCALE
      in if newScale = scale s then s
         else let r = centre_rect b s
              in zoomAround b newScale (rect_left r + rect_width r / 2)
                   (rect_top r + rect_height r / 2) s)"

definition zoomOut :: "env \<Rightarrow> viewer \<Rightarrow> viewer" where
  "zoomOut b s =
     (let newScale = clamp (scale s - ZOOM_STEP) MIN_SCALE MAX_SCALE
      in if newScale = scale s then s
         else let r = centre_rect b s
              in zoomAround b newScale (rect_left r + rect_width r / 2)
                   (rect_top r + rect_height r / 2) s)"

definition resetView :: "viewer \<Rightarrow> viewer" where
  "resetView s = applyTransform (s\<lparr>scale := 1, translateX := 0, translateY := 0\<rparr>)"

subsection \<open>Mouse drag (lines 92-114)\<close>

definition classList_add :: "string \<Rightarrow> element \<Rightarrow> element" where
  "classList_add c el =
     (if c \<in> set (classList el) then el else el\<lparr>classList := classList el @ [c]\<rparr>)"

definition classList_remove :: "string \<Rightarrow> element \<Rightarrow> element" where
  "classList_remove c el = el\<lparr>classList := removeAll c (classList el)\<rparr>"

definition onMouseDown :: "mouse_event \<Rightarrow> viewer \<Rightarrow> handled" where
  "onMouseDown e s =
     (if button e \<noteq> 0 then Inr (s, False)
      else
        let s1 = s\<lparr>isDragging := True, dragStartX := clientX e, dragStartY := clientY e,
                   dragOriginX := translateX s, dragOriginY := translateY s\<rparr>
        in (case mapContainer s1 of
              None \<Rightarrow> Inl (TypeError, s1)
            | Some c \<Rightarrow> Inr (s1\<lparr>mapContainer := Some (classList_add ''grabbing'' c)\<rparr>, True)))"

definition onMouseMove :: "mouse_event \<Rightarrow> viewer \<Rightarrow> viewer" where
  "onMouseMove e s =
     (if \<not> isDragging s then s
      else applyTransform
             (s\<lparr>translateX := dragOriginX s + (clientX e - dragStartX s),
                translateY := dragOriginY s + (clientY e - dragStartY s)\<rparr>))"

definition onMouseUp :: "viewer \<Rightarrow> handled" where
  "onMouseUp s =
     (if \<not> isDragging s then Inr (s, False)
      else
        let s1 = s\<lparr>isDragging := False\<rparr>
        in (case mapContainer s1 of
              None \<Rightarrow> Inl (TypeError, s1)
            | Some c \<Rightarrow> Inr (s1\<lparr>mapContainer := Some (classList_remove ''grabbing'' c)\<rparr>, False)))"

subsection \<open>Wheel (lines 117-124)\<close>

text \<open>\<open>preventDefault()\<close> is called first and on every path, so the flag is \<open>True\<close>.\<close>

definition onWheel :: "env \<Rightarrow> wheel_event \<Rightarrow> viewer \<Rightarrow> viewer \<times> bool" where
  "onWheel b e s =
     (let delta = (if deltaY e < 0 then ZOOM_STEP else - ZOOM_STEP);
          newScale = clamp (scale s + delta) MIN_SCALE MAX_SCALE
      in (if newScale \<noteq> scale s then zoomAround b newScale (clientX e) (clientY e) s else s,
          True))"

subsection \<open>Touch (lines 127-168)\<close>

text \<open>
  \<open>getTouchDist\<close> reads \<open>touches[0]\<close> and \<open>touches[1]\<close>; both of its callers have checked
  that the length is two, and pass the two touch points here.
\<close>

definition getTouchDist :: "pointer \<Rightarrow> pointer \<Rightarrow> real" where
  "getTouchDist t0 t1 =
     (let dx = clientX t0 - clientX t1;
          dy = clientY t0 - clientY t1
      in sqrt (dx * dx + dy * dy))"

definition onTouchStart :: "touch_event \<Rightarrow> viewer \<Rightarrow> viewer" where
  "onTouchStart e s =
     (if length (touches e) = 1 then
        s\<lparr>isDragging := True,
          dragStartX := clientX (touches e ! 0), dragStartY := clientY (touches e ! 0),
          dragOriginX := translateX s, dragOriginY := translateY s\<rparr>
      else if length (touches e) = 2 then
        s\<lparr>isDragging := False,
          lastPinchDist := getTouchDist (touches e ! 0) (touches e ! 1)\<rparr>
      else s)"

definition onTouchMove :: "env \<Rightarrow> touch_event \<Rightarrow> viewer \<Rightarrow> viewer \<times> bool" where
  "onTouchMove b e s =
     (if length (touches e) = 1 \<and> isDragging s then
        applyTransform
          (s\<lparr>translateX := dragOriginX s + (clientX (touches e ! 0) - dragStartX s),
             translateY := dragOriginY s + (clientY (touches e ! 0) - dragStartY s)\<rparr>)
      else if length (touches e) = 2 then
        let dist = getTouchDist (touches e ! 0) (touches e ! 1);
            pinchDelta = (dist - lastPinchDist s) / 200;
            newScale = clamp (scale s + pinchDelta) MIN_SCALE MAX_SCALE;
            midX = (clientX (touches e ! 0) + clientX (touches e ! 1)) / 2;
            midY = (clientY (touches e ! 0) + clientY (touches e ! 1)) / 2
        in (zoomAround b newScale midX midY s)\<lparr>lastPinchDist := dist\<rparr>
      else s,
      True)"

definition onTouchEnd :: "touch_event \<Rightarrow> viewer \<Rightarrow> viewer" where
  "onTouchEnd e s =
     (if length (touches e) = 0 then s\<lparr>isDragging := False, lastPinchDist := 0\<rparr> else s)"

subsection \<open>Keyboard (lines 171-185)\<close>

definition onKeyDown :: "env \<Rightarrow> key_event \<Rightarrow> viewer \<Rightarrow> viewer \<times> bool" where
  "onKeyDown b e s =
     (case mapContainer s of
        None \<Rightarrow> (s, False)
      | Some c \<Rightarrow>
          if key e = ''+'' \<or> key e = ''='' then (zoomIn b s, True)
          else if key e = ''-'' \<or> key e = ''_'' then (zoomOut b s, True)
          else if key e = ''0'' then (resetView s, True)
          else if key e = ''ArrowUp'' then
            (applyTransform (s\<lparr>translateY := translateY s + PAN_STEP\<rparr>), True)
          else if key e = ''ArrowDown'' then
            (applyTransform (s\<lparr>translateY := translateY s - PAN_STEP\<rparr>), True)
          else if key e = ''ArrowLeft'' then
            (applyTransform (s\<lparr>translateX := translateX s + PAN_STEP\<rparr>), True)
          else if key e = ''ArrowRight'' then
            (applyTransform (s\<lparr>translateX := translateX s - PAN_STEP\<rparr>), True)
          else (s, False))"

subsection \<open>Initialisation (lines 188-219)\<close>

definition addEventListener :: "string \<Rightarrow> string \<Rightarrow> element \<Rightarrow> element" where
  "addEventListener ty h el = el\<lparr>listeners := listeners el @ [(ty, h)]\<rparr>"

definition container_handlers :: "(string \<times> string) list" where
  "container_handlers =
     [(''mousedown'', ''onMouseDown''), (''wheel'', ''onWheel''),
      (''touchstart'', ''onTouchStart''), (''touchmove'', ''onTouchMove''),
      (''touchend'', ''onTouchEnd''), (''contextmenu'', ''preventDefault'')]"

definition init :: "document \<Rightarrow> viewer \<Rightarrow> viewer" where
  "init d s =
     (let s1 = s\<lparr>mapContainer := elem_mapContainer d, mapWrapper := elem_mapWrapper d,
                 zoomDisplay := elem_zoomLevel d\<rparr>
      in if mapContainer s1 = None \<or> mapWrapper s1 = None then s1
         else
           let s2 = applyTransform s1
           in s2\<lparr>mapContainer :=
                   map_option (\<lambda>c. foldl (\<lambda>el (ty, h). addEventListener ty h el) c
                                     container_handlers) (mapContainer s2),
                 windowListeners := windowListeners s2 @
                   [(''mousemove'', ''onMouseMove''), (''mouseup'', ''onMouseUp'')],
                 documentListeners := documentListeners s2 @
                   [(''keydown'', ''onKeyDown'')]\<rparr>)"

subsection \<open>Events in sequence\<close>

datatype event =
    ZoomIn
  | ZoomOut
  | ResetView
  | MouseDown mouse_event
  | MouseMove mouse_event
  | MouseUp
  | Wheel wheel_event
  | TouchStart touch_event
  | TouchMove touch_event
  | TouchEnd touch_event
  | KeyDown key_event

text \<open>
  One call from the page: the browser's values at the time of the call, the event, and
  the state the call leaves behind (also when the handler threw).
\<close>

fun step :: "viewer \<Rightarrow> env \<times> event \<Rightarrow> viewer" where
  "step s (b, ZoomIn) = zoomIn b s"
| "step s (b, ZoomOut) = zoomOut b s"
| "step s (b, ResetView) = resetView s"
| "step s (b, MouseDown e) = state_of (onMouseDown e s)"
| "step s (b, MouseMove e) = onMouseMove e s"
| "step s (b, MouseUp) = state_of (onMouseUp s)"
| "step s (b, Wheel e) = fst (onWheel b e s)"
| "step s (b, TouchStart e) = onTouchStart e s"
| "step s (b, TouchMove e) = fst (onTouchMove b e s)"
| "step s (b, TouchEnd e) = onTouchEnd e s"
| "step s (b, KeyDown e) = fst (onKeyDown b e s)"

definition run :: "viewer \<Rightarrow> (env \<times> event) list \<Rightarrow> viewer" where
  "run s evs = foldl step s evs"

text \<open>The invariant of the data model: the scale is within its bounds.\<close>

definition scale_ok :: "viewer \<Rightarrow> bool" where
  "scale_ok s \<longleftrightarrow> MIN_SCALE \<le> scale s \<and> scale s \<le> MAX_SCALE"

subsection \<open>Sequences used by the properties\<close>

text \<open>The mouse-move events of one drag, in the order they arrive.\<close>

definition drag_moves :: "viewer \<Rightarrow> mouse_event list \<Rightarrow> viewer" where
  "drag_moves s ms = foldl (\<lambda>s e. onMouseMove e s) s ms"

text \<open>What the page shows: the transform last written to the wrapper's style.\<close>

definition rendered :: "viewer \<Rightarrow> css_transform option" where
  "rendered s = (case mapWrapper s of None \<Rightarrow> None | Some w \<Rightarrow> style_transform w)"

text \<open>The three functions the script puts on \<open>window\<close> for the page's buttons.\<close>

definition public_op :: "event \<Rightarrow> bool" where
  "public_op ev \<longleftrightarrow> ev = ZoomIn \<or> ev = ZoomOut \<or> ev = ResetView"

subsection \<open>Concrete pages and events\<close>

definition el0 :: element where
  "el0 = \<lparr>style_transform = None, textContent = None, classList = [], listeners = []\<rparr>"

definition env0 :: env where
  "env0 = \<lparr>wrapperRect = \<lparr>rect_left = 0, rect_top = 0, rect_width = 800, rect_height = 600\<rparr>,
            containerRect = \<lparr>rect_left = 0, rect_top = 0, rect_width = 800, rect_height = 600\<rparr>,
            innerWidth = 1024, innerHeight = 768\<rparr>"

definition doc_full :: document where
  "doc_full = \<lparr>elem_mapContainer = Some el0, elem_mapWrapper = Some el0,
                elem_zoomLevel = Some el0\<rparr>"

definition doc_no_container :: document where
  "doc_no_container = \<lparr>elem_mapContainer = None, elem_mapWrapper = Some el0,
                        elem_zoomLevel = Some el0\<rparr>"

definition doc_no_wrapper :: document where
  "doc_no_wrapper = \<lparr>elem_mapContainer = Some el0, elem_mapWrapper = None,
                      elem_zoomLevel = Some el0\<rparr>"

text \<open>The page with all three elements, after \<open>init\<close>.\<close>

definition ready :: viewer where
  "ready = init doc_full initial"

definition mouse_at :: "real \<Rightarrow> real \<Rightarrow> mouse_event" where
  "mouse_at x y = \<lparr>clientX = x, clientY = y, button = 0\<rparr>"

definition wheel_at :: "real \<Rightarrow> real \<Rightarrow> real \<Rightarrow> wheel_event" where
  "wheel_at x y d = \<lparr>clientX = x, clientY = y, deltaY = d\<rparr>"

definition touch_at :: "real \<Rightarrow> real \<Rightarrow> pointer" where
  "touch_at x y = \<lparr>clientX = x, clientY = y\<rparr>"

text \<open>The full page after a mouse drag from (10, 10) to (110, 60), the button released.\<close>

definition panned :: viewer where
  "panned = state_of (onMouseUp
     (drag_moves (state_of (onMouseDown (mouse_at 10 10) ready)) [mouse_at 110 60]))"

definition pinch_start :: touch_event where
  "pinch_start = \<lparr>touches = [touch_at 0 0, touch_at 3 4]\<rparr>"

definition two_fingers :: touch_event where
  "two_fingers = \<lparr>touches = [touch_at 0 0, touch_at 300 400]\<rparr>"

definition one_left :: touch_event where
  "one_left = \<lparr>touches = [touch_at 0 0]\<rparr>"

definition none_left :: touch_event where
  "none_left = \<lparr>touches = []\<rparr>"

section \<open>Properties\<close>

subsection \<open>Rendering changes the elements only\<close>

lemma applyTransform_fields:
  "scale (applyTransform s) = scale s"
  "translateX (applyTransform s) = translateX s"
  "translateY (applyTransform s) = translateY s"
  "isDragging (applyTransform s) = isDragging s"
  "dragStartX (applyTransform s) = dragStartX s"
  "dragStartY (applyTransform s) = dragStartY s"
  "dragOriginX (applyTransform s) = dragOriginX s"
  "dragOriginY (applyTransform s) = dragOriginY s"
  "lastPinchDist (applyTransform s) = lastPinchDist s"
  "mapContainer (applyTransform s) = mapContainer s"
  "windowListeners (applyTransform s) = windowListeners s"
  "documentListeners (applyTransform s) = documentListeners s"
  by (simp_all add: applyTransform_def Let_def split: option.split)

lemma applyTransform_present:
  "(mapWrapper (applyTransform s) = None) = (mapWrapper s = None)"
  "(zoomDisplay (applyTransform s) = None) = (zoomDisplay s = None)"
  by (simp_all add: applyTransform_def Let_def split: option.split)

lemma applyTransform_absent: "mapWrapper s = None \<Longrightarrow> applyTransform s = s"
  by (simp add: applyTransform_def)

lemma zoomAround_scale:
  "scale (zoomAround b n cx cy s) = (if mapWrapper s = None then scale s else n)"
  by (simp add: zoomAround_def Let_def applyTransform_fields split: option.split)

lemma zoomAround_absent: "mapWrapper s = None \<Longrightarrow> zoomAround b n cx cy s = s"
  by (simp add: zoomAround_def)

lemma ready_fields:
  "scale ready = 1" "translateX ready = 0" "translateY ready = 0" "\<not> isDragging ready"
  "lastPinchDist ready = 0" "mapWrapper ready \<noteq> None" "mapContainer ready \<noteq> None"
  by (simp_all add: ready_def init_def Let_def initial_def doc_full_def applyTransform_fields
        applyTransform_present)

lemma sqrt_25: "sqrt 25 = 5"
  using real_sqrt_abs [of 5] by simp

lemma sqrt_250000: "sqrt 250000 = 500"
  using real_sqrt_abs [of 500] by simp

subsection \<open>Zooming around a point\<close>

lemma rendered_applyTransform:
  "rendered (applyTransform s) =
     (if mapWrapper s = None then None
      else Some (Translate_Scale (translateX s) (translateY s) (scale s)))"
  by (simp add: rendered_def applyTransform_def Let_def split: option.split)

text \<open>
  The translation that \<open>zoomAround\<close> leaves is computed from the bounding box, the point
  and the ratio of the scales; the translation before the call is not read.
\<close>

lemma zoomAround_translate:
  assumes "mapWrapper s \<noteq> None" and "scale s \<noteq> 0"
  shows "translateX (zoomAround b n cx cy s)
           = (cx - rect_left (wrapperRect b)) * (1 - n / scale s)"
    and "translateY (zoomAround b n cx cy s)
           = (cy - rect_top (wrapperRect b)) * (1 - n / scale s)"
  using assms
  by (auto simp add: zoomAround_def Let_def applyTransform_fields right_diff_distrib)

lemma zoomAround_rendered:
  assumes "mapWrapper s \<noteq> None"
  shows "rendered (zoomAround b n cx cy s)
           = Some (Translate_Scale (translateX (zoomAround b n cx cy s))
                     (translateY (zoomAround b n cx cy s)) n)"
  using assms
  by (auto simp add: zoomAround_def Let_def rendered_applyTransform applyTransform_fields)

text \<open>At an unchanged scale the call puts the translation back to (0, 0), for every box.\<close>

lemma zoomAround_same_scale:
  assumes "mapWrapper s \<noteq> None" and "scale s \<noteq> 0"
  shows "translateX (zoomAround b (scale s) cx cy s) = 0"
    and "translateY (zoomAround b (scale s) cx cy s) = 0"
  using assms by (simp_all add: zoomAround_translate)

lemma panned_fields:
  "translateX panned = 100" "translateY panned = 50" "scale panned = 1"
  "mapWrapper panned \<noteq> None" "rendered panned = Some (Translate_Scale 100 50 1)"
  by (simp_all add: panned_def drag_moves_def onMouseUp_def onMouseDown_def onMouseMove_def
        mouse_at_def ready_def init_def initial_def doc_full_def Let_def
        rendered_def applyTransform_def)

text \<open>
  Claim C1 says that \<open>zoomAround(newScale, cx, cy)\<close> keeps the point under \<open>(cx, cy)\<close> where
  it is on the screen, and the comment on line 49 says that the function zooms around that
  point. The script does not do so once the map has been moved. On the full page, after a
  drag that leaves the translation at (100, 50) and the page showing
  \<open>translate(100px, 50px) scale(1)\<close>, two fingers are put down at (0, 0) and (300, 400) and a
  touch-move arrives with both fingers where they were. The pinch step calls
  \<open>zoomAround\<close> with the scale unchanged, and whatever bounding box the browser reports the
  translation is (0, 0) afterwards and the page shows \<open>translate(0px, 0px) scale(1)\<close>: at
  the same scale the whole picture has moved by (-100, -50), the point between the
  fingers with it.
\<close>

theorem pinch_resets_translate:
  "translateX panned = 100 \<and> translateY panned = 50 \<and> scale panned = 1
   \<and> rendered panned = Some (Translate_Scale 100 50 1)
   \<and> translateX (fst (onTouchMove b two_fingers (onTouchStart two_fingers panned))) = 0
   \<and> translateY (fst (onTouchMove b two_fingers (onTouchStart two_fingers panned))) = 0
   \<and> scale (fst (onTouchMove b two_fingers (onTouchStart two_fingers panned))) = 1
   \<and> rendered (fst (onTouchMove b two_fingers (onTouchStart two_fingers panned)))
       = Some (Translate_Scale 0 0 1)"
proof -
  define s where "s = onTouchStart two_fingers panned"
  define d where "d = getTouchDist (touch_at 0 0) (touch_at 300 400)"
  have w: "mapWrapper s \<noteq> None" and sc: "scale s = 1" and l: "lastPinchDist s = d"
    by (simp_all add: s_def d_def onTouchStart_def two_fingers_def panned_fields)
  have c: "clamp 1 MIN_SCALE MAX_SCALE = 1"
    by (simp add: clamp_def MIN_SCALE_def MAX_SCALE_def)
  have m: "fst (onTouchMove b two_fingers s) = (zoomAround b (scale s) 150 200 s)\<lparr>lastPinchDist := d\<rparr>"
    by (simp add: onTouchMove_def two_fingers_def Let_def l sc c)
       (simp add: d_def touch_at_def c)
  have z: "translateX (zoomAround b (scale s) 150 200 s) = 0"
          "translateY (zoomAround b (scale s) 150 200 s) = 0"
    using zoomAround_same_scale [OF w, of b 150 200] sc by simp_all
  have r: "rendered (zoomAround b (scale s) 150 200 s) = Some (Translate_Scale 0 0 1)"
    using zoomAround_rendered [OF w, of b "scale s" 150 200] z sc by simp
  have r': "rendered (v\<lparr>lastPinchDist := x\<rparr>) = rendered v" for v x
    by (simp add: rendered_def)
  have "translateX (fst (onTouchMove b two_fingers s)) = 0"
       "translateY (fst (onTouchMove b two_fingers s)) = 0"
       "scale (fst (onTouchMove b two_fingers s)) = 1"
       "rendered (fst (onTouchMove b two_fingers s)) = Some (Translate_Scale 0 0 1)"
    using z r w sc by (simp_all add: m r' zoomAround_scale)
  then show ?thesis
    by (simp add: panned_fields s_def)
qed

subsection \<open>The scale stays within its bounds\<close>

lemma clamp_scale_ok:
  "MIN_SCALE \<le> clamp v MIN_SCALE MAX_SCALE \<and> clamp v MIN_SCALE MAX_SCALE \<le> MAX_SCALE"
  by (simp add: clamp_def MIN_SCALE_def MAX_SCALE_def)

lemma zoomAround_scale_ok:
  "scale_ok s \<Longrightarrow> scale_ok (zoomAround b (clamp v MIN_SCALE MAX_SCALE) cx cy s)"
  using clamp_scale_ok [of v] by (simp add: scale_ok_def zoomAround_scale)

lemma zoomIn_scale_ok: "scale_ok s \<Longrightarrow> scale_ok (zoomIn b s)"
  by (simp add: zoomIn_def Let_def zoomAround_scale_ok)

lemma zoomOut_scale_ok: "scale_ok s \<Longrightarrow> scale_ok (zoomOut b s)"
  by (simp add: zoomOut_def Let_def zoomAround_scale_ok)

lemma resetView_scale_ok: "scale_ok (resetView s)"
  by (simp add: scale_ok_def resetView_def applyTransform_fields MIN_SCALE_def MAX_SCALE_def)

lemma applyTransform_scale_ok: "scale_ok (applyTransform s) = scale_ok s"
  by (simp add: scale_ok_def applyTransform_fields)

lemma step_scale_ok: "scale_ok s \<Longrightarrow> scale_ok (step s be)"
proof (cases be)
  case (Pair b ev)
  assume ok: "scale_ok s"
  show ?thesis
  proof (cases ev)
    case ZoomIn with Pair ok show ?thesis by (simp add: zoomIn_scale_ok)
  next
    case ZoomOut with Pair ok show ?thesis by (simp add: zoomOut_scale_ok)
  next
    case ResetView with Pair show ?thesis by (simp add: resetView_scale_ok)
  next
    case (MouseDown e) with Pair ok show ?thesis
      by (simp add: onMouseDown_def Let_def scale_ok_def split: option.split)
  next
    case (MouseMove e) with Pair ok show ?thesis
      by (simp add: onMouseMove_def applyTransform_scale_ok) (simp add: scale_ok_def)
  next
    case MouseUp with Pair ok show ?thesis
      by (simp add: onMouseUp_def Let_def scale_ok_def split: option.split)
  next
    case (Wheel e) with Pair ok show ?thesis
      by (simp add: onWheel_def Let_def zoomAround_scale_ok)
  next
    case (TouchStart e) with Pair ok show ?thesis
      by (simp add: onTouchStart_def scale_ok_def)
  next
    case (TouchMove e)
    have "scale_ok (zoomAround b (clamp v MIN_SCALE MAX_SCALE) cx cy s\<lparr>lastPinchDist := d\<rparr>)"
      for v cx cy d
      using zoomAround_scale_ok [OF ok, of b v cx cy] by (simp add: scale_ok_def)
    with TouchMove Pair ok show ?thesis
      by (simp add: onTouchMove_def Let_def applyTransform_scale_ok) (simp add: scale_ok_def)
  next
    case (TouchEnd e) with Pair ok show ?thesis
      by (simp add: onTouchEnd_def scale_ok_def)
  next
    case (KeyDown e) with Pair ok show ?thesis
      by (simp add: onKeyDown_def zoomIn_scale_ok zoomOut_scale_ok resetView_scale_ok
            applyTransform_scale_ok split: option.split) (simp add: scale_ok_def)
  qed
qed

lemma run_scale_ok: "scale_ok s \<Longrightarrow> scale_ok (run s evs)"
  unfolding run_def by (induction evs arbitrary: s) (simp_all add: step_scale_ok)

lemma init_scale_ok: "scale_ok (init d initial)"
  by (simp add: init_def Let_def scale_ok_def initial_def applyTransform_fields
        MIN_SCALE_def MAX_SCALE_def)

text \<open>
  Claim C2. The scale is within \<open>[MIN_SCALE, MAX_SCALE]\<close> after \<open>init\<close> on any page and
  after every finite sequence of events from there (zoomIn, zoomOut, wheel and pinch
  moves among them); more generally, no event takes a scale that is within the bounds
  out of them.
  At \<open>scale = MAX_SCALE\<close> a call of \<open>zoomIn\<close> leaves the whole state as it is, and so
  does \<open>zoomOut\<close> at \<open>scale = MIN_SCALE\<close>.
\<close>

theorem scale_within_bounds:
  "scale_ok (run (init d initial) evs)
   \<and> (scale_ok s \<longrightarrow> scale_ok (run s evs))
   \<and> (scale s = MAX_SCALE \<longrightarrow> zoomIn b s = s)
   \<and> (scale s = MIN_SCALE \<longrightarrow> zoomOut b s = s)"
  by (simp add: init_scale_ok run_scale_ok zoomIn_def zoomOut_def clamp_def
        MIN_SCALE_def MAX_SCALE_def ZOOM_STEP_def)

text \<open>
  From scale 5 a call of \<open>zoomIn\<close> changes nothing, from scale 1/2 a call of \<open>zoomOut\<close>
  changes nothing, and a wheel step up from scale 5 stays at 5.
\<close>

theorem scale_within_bounds_witness:
  "scale_ok (ready\<lparr>scale := 5\<rparr>)
   \<and> scale_ok (run (ready\<lparr>scale := 5\<rparr>) [(env0, Wheel (wheel_at 10 10 (- 1)))])
   \<and> scale (ready\<lparr>scale := 5\<rparr>) = MAX_SCALE
   \<and> zoomIn env0 (ready\<lparr>scale := 5\<rparr>) = ready\<lparr>scale := 5\<rparr>
   \<and> scale (ready\<lparr>scale := 1 / 2\<rparr>) = MIN_SCALE
   \<and> zoomOut env0 (ready\<lparr>scale := 1 / 2\<rparr>) = ready\<lparr>scale := 1 / 2\<rparr>"
  using scale_within_bounds [of doc_full "[(env0, Wheel (wheel_at 10 10 (- 1)))]"
          "ready\<lparr>scale := 5\<rparr>" env0]
        scale_within_bounds [of doc_full "[]" "ready\<lparr>scale := 1 / 2\<rparr>" env0]
  by (simp add: scale_ok_def MIN_SCALE_def MAX_SCALE_def)

subsection \<open>Reset\<close>

text \<open>
  Claim C7. \<open>resetView\<close> has no precondition: from every state it leaves the transform at
  scale 1 and translation (0, 0), and a second call right after the first changes nothing
  (neither the variables nor what was written to the elements).
\<close>

theorem resetView_identity:
  "scale (resetView s) = 1 \<and> translateX (resetView s) = 0 \<and> translateY (resetView s) = 0
   \<and> resetView (resetView s) = resetView s"
  by (simp add: resetView_def applyTransform_def Let_def split: option.split)

subsection \<open>Reset during a drag\<close>

text \<open>
  Claim C10. \<open>resetView\<close> leaves \<open>isDragging\<close>, the drag start, the drag origin and
  \<open>lastPinchDist\<close> as they were. When it is called during a drag, the drag stays active
  and the next mouse-move sets the translation from the drag origin taken before the
  reset, so the reset translation is overwritten.
\<close>

theorem resetView_frame:
  "isDragging (resetView s) = isDragging s
   \<and> dragStartX (resetView s) = dragStartX s \<and> dragStartY (resetView s) = dragStartY s
   \<and> dragOriginX (resetView s) = dragOriginX s \<and> dragOriginY (resetView s) = dragOriginY s
   \<and> lastPinchDist (resetView s) = lastPinchDist s
   \<and> (isDragging s \<longrightarrow>
        isDragging (onMouseMove e (resetView s))
      \<and> translateX (onMouseMove e (resetView s)) = dragOriginX s + (clientX e - dragStartX s)
      \<and> translateY (onMouseMove e (resetView s)) = dragOriginY s + (clientY e - dragStartY s))"
  by (simp add: resetView_def onMouseMove_def applyTransform_fields)

text \<open>
  A drag that starts at (100, 100) with translation (70, 80): after a reset, the move to
  (110, 120) gives the translation (80, 100), not (10, 20).
\<close>

theorem resetView_frame_witness:
  "isDragging (state_of (onMouseDown (mouse_at 100 100) (ready\<lparr>translateX := 70, translateY := 80\<rparr>)))
   \<and> translateX (onMouseMove (mouse_at 110 120) (resetView
        (state_of (onMouseDown (mouse_at 100 100) (ready\<lparr>translateX := 70, translateY := 80\<rparr>)))))
       = 80
   \<and> translateY (onMouseMove (mouse_at 110 120) (resetView
        (state_of (onMouseDown (mouse_at 100 100) (ready\<lparr>translateX := 70, translateY := 80\<rparr>)))))
       = 100"
  using resetView_frame [of "state_of (onMouseDown (mouse_at 100 100)
          (ready\<lparr>translateX := 70, translateY := 80\<rparr>))" "mouse_at 110 120"]
  by (simp add: onMouseDown_def mouse_at_def Let_def split: option.split)

subsection \<open>Wheel\<close>

text \<open>
  Claim C9. A wheel event with vertical delta exactly zero is handled as a zoom-out, as
  every event with a positive delta is: with the wrapper resolved the scale becomes
  \<open>clamp(scale - ZOOM_STEP, MIN_SCALE, MAX_SCALE)\<close>, which is \<open>scale - ZOOM_STEP\<close> while that
  is not below \<open>MIN_SCALE\<close> and \<open>MIN_SCALE\<close> otherwise.
\<close>

theorem onWheel_zero_delta:
  assumes "deltaY e = 0" and "mapWrapper s \<noteq> None"
  shows "scale (fst (onWheel b e s)) = clamp (scale s - ZOOM_STEP) MIN_SCALE MAX_SCALE
       \<and> (MIN_SCALE + ZOOM_STEP \<le> scale s \<and> scale s \<le> MAX_SCALE
            \<longrightarrow> scale (fst (onWheel b e s)) = scale s - ZOOM_STEP)
       \<and> (scale_ok s \<and> scale s \<le> MIN_SCALE + ZOOM_STEP
            \<longrightarrow> scale (fst (onWheel b e s)) = MIN_SCALE)
       \<and> (0 < d \<longrightarrow> onWheel b (e\<lparr>deltaY := d\<rparr>) s = onWheel b e s)"
  using assms
  by (auto simp add: onWheel_def Let_def zoomAround_scale clamp_def scale_ok_def
        MIN_SCALE_def MAX_SCALE_def ZOOM_STEP_def)

text \<open>From scale 1 the step gives 4/5; from scale 3/5 it stops at 1/2.\<close>

theorem onWheel_zero_delta_witness:
  "deltaY (wheel_at 10 10 0) = 0 \<and> mapWrapper ready \<noteq> None
   \<and> MIN_SCALE + ZOOM_STEP \<le> scale ready \<and> scale ready \<le> MAX_SCALE
   \<and> scale (fst (onWheel env0 (wheel_at 10 10 0) ready)) = 4 / 5
   \<and> scale_ok (ready\<lparr>scale := 3 / 5\<rparr>) \<and> scale (ready\<lparr>scale := 3 / 5\<rparr>) \<le> MIN_SCALE + ZOOM_STEP
   \<and> scale (fst (onWheel env0 (wheel_at 10 10 0) (ready\<lparr>scale := 3 / 5\<rparr>))) = 1 / 2
   \<and> (0::real) < 3
   \<and> onWheel env0 (wheel_at 10 10 3) ready = onWheel env0 (wheel_at 10 10 0) ready"
  using onWheel_zero_delta [of "wheel_at 10 10 0" ready env0 3]
        onWheel_zero_delta [of "wheel_at 10 10 0" "ready\<lparr>scale := 3 / 5\<rparr>" env0 3] ready_fields
  by (simp add: wheel_at_def scale_ok_def MIN_SCALE_def MAX_SCALE_def ZOOM_STEP_def)

subsection \<open>Keyboard\<close>

text \<open>
  Claim C8. With the container resolved, an arrow key moves the translation by
  \<open>PAN_STEP = 30\<close> along its axis (ArrowRight and ArrowDown subtract, ArrowLeft and ArrowUp
  add) and leaves the other axis and the scale alone; from \<open>translateX = 0\<close>, ArrowRight gives
  \<open>-30\<close> and ArrowLeft after it gives \<open>0\<close>; every key the handler acts on has
  \<open>preventDefault()\<close> called.
\<close>

theorem onKeyDown_arrows:
  assumes "mapContainer s \<noteq> None"
  shows "(key e = ''ArrowRight'' \<longrightarrow>
            translateX (fst (onKeyDown b e s)) = translateX s - PAN_STEP
          \<and> translateY (fst (onKeyDown b e s)) = translateY s)
       \<and> (key e = ''ArrowLeft'' \<longrightarrow>
            translateX (fst (onKeyDown b e s)) = translateX s + PAN_STEP
          \<and> translateY (fst (onKeyDown b e s)) = translateY s)
       \<and> (key e = ''ArrowUp'' \<longrightarrow>
            translateY (fst (onKeyDown b e s)) = translateY s + PAN_STEP
          \<and> translateX (fst (onKeyDown b e s)) = translateX s)
       \<and> (key e = ''ArrowDown'' \<longrightarrow>
            translateY (fst (onKeyDown b e s)) = translateY s - PAN_STEP
          \<and> translateX (fst (onKeyDown b e s)) = translateX s)
       \<and> (key e \<in> {''ArrowRight'', ''ArrowLeft'', ''ArrowUp'', ''ArrowDown''} \<longrightarrow>
            scale (fst (onKeyDown b e s)) = scale s)
       \<and> (key e \<in> {''+'', ''='', ''-'', ''_'', ''0'',
                    ''ArrowRight'', ''ArrowLeft'', ''ArrowUp'', ''ArrowDown''} \<longrightarrow>
            snd (onKeyDown b e s))
       \<and> (translateX s = 0 \<longrightarrow>
            translateX (fst (onKeyDown b \<lparr>key = ''ArrowRight''\<rparr> s)) = - 30
          \<and> translateX (fst (onKeyDown b \<lparr>key = ''ArrowLeft''\<rparr>
                               (fst (onKeyDown b \<lparr>key = ''ArrowRight''\<rparr> s)))) = 0)"
  using assms
  by (auto simp add: onKeyDown_def applyTransform_fields PAN_STEP_def)

text \<open>The four arrow keys on the full page, from translation (0, 0).\<close>

theorem onKeyDown_arrows_witness:
  "mapContainer ready \<noteq> None \<and> translateX ready = 0
   \<and> translateX (fst (onKeyDown env0 \<lparr>key = ''ArrowRight''\<rparr> ready)) = - 30
   \<and> translateY (fst (onKeyDown env0 \<lparr>key = ''ArrowRight''\<rparr> ready)) = 0
   \<and> scale (fst (onKeyDown env0 \<lparr>key = ''ArrowRight''\<rparr> ready)) = 1
   \<and> snd (onKeyDown env0 \<lparr>key = ''ArrowRight''\<rparr> ready)
   \<and> translateX (fst (onKeyDown env0 \<lparr>key = ''ArrowLeft''\<rparr>
                        (fst (onKeyDown env0 \<lparr>key = ''ArrowRight''\<rparr> ready)))) = 0
   \<and> translateY (fst (onKeyDown env0 \<lparr>key = ''ArrowUp''\<rparr> ready)) = 30
   \<and> translateY (fst (onKeyDown env0 \<lparr>key = ''ArrowDown''\<rparr> ready)) = - 30"
  using onKeyDown_arrows [of ready "\<lparr>key = ''ArrowRight''\<rparr>" env0]
        onKeyDown_arrows [of ready "\<lparr>key = ''ArrowUp''\<rparr>" env0]
        onKeyDown_arrows [of ready "\<lparr>key = ''ArrowDown''\<rparr>" env0]
        ready_fields
  by (simp add: PAN_STEP_def)

subsection \<open>Dragging\<close>

lemma onMouseMove_drag_fields:
  "isDragging (onMouseMove e s) = isDragging s"
  "dragStartX (onMouseMove e s) = dragStartX s"
  "dragStartY (onMouseMove e s) = dragStartY s"
  "dragOriginX (onMouseMove e s) = dragOriginX s"
  "dragOriginY (onMouseMove e s) = dragOriginY s"
  by (simp_all add: onMouseMove_def applyTransform_fields)

lemma drag_moves_fields:
  "isDragging (drag_moves s ms) = isDragging s
   \<and> dragStartX (drag_moves s ms) = dragStartX s
   \<and> dragStartY (drag_moves s ms) = dragStartY s
   \<and> dragOriginX (drag_moves s ms) = dragOriginX s
   \<and> dragOriginY (drag_moves s ms) = dragOriginY s"
  unfolding drag_moves_def
  by (induction ms arbitrary: s) (simp_all add: onMouseMove_drag_fields)

lemma drag_moves_snoc: "drag_moves s (ms @ [e]) = onMouseMove e (drag_moves s ms)"
  by (simp add: drag_moves_def)

lemma onMouseDown_snapshot:
  "button e0 = 0 \<Longrightarrow>
     isDragging (state_of (onMouseDown e0 s))
   \<and> dragStartX (state_of (onMouseDown e0 s)) = clientX e0
   \<and> dragStartY (state_of (onMouseDown e0 s)) = clientY e0
   \<and> dragOriginX (state_of (onMouseDown e0 s)) = translateX s
   \<and> dragOriginY (state_of (onMouseDown e0 s)) = translateY s"
  by (simp add: onMouseDown_def Let_def split: option.split)

text \<open>
  Claim C3. A drag starts with a left-button mouse-down \<open>e0\<close> in a state with translation
  \<open>(tx, ty)\<close>. After any non-empty sequence of mouse-move events, the translation is
  \<open>(tx, ty)\<close> plus the pointer position of the last move minus that of \<open>e0\<close>, whatever
  the moves before the last were: each move computes from the snapshot taken at \<open>e0\<close>.
\<close>

theorem drag_from_snapshot:
  assumes "button e0 = 0" and "ms \<noteq> []"
  shows "translateX (drag_moves (state_of (onMouseDown e0 s)) ms)
           = translateX s + (clientX (last ms) - clientX e0)
       \<and> translateY (drag_moves (state_of (onMouseDown e0 s)) ms)
           = translateY s + (clientY (last ms) - clientY e0)"
proof -
  from \<open>ms \<noteq> []\<close> obtain ms' e where ms: "ms = ms' @ [e]"
    by (metis append_butlast_last_id)
  let ?d = "state_of (onMouseDown e0 s)"
  have "translateX (onMouseMove e (drag_moves ?d ms')) = translateX s + (clientX e - clientX e0)"
       "translateY (onMouseMove e (drag_moves ?d ms')) = translateY s + (clientY e - clientY e0)"
    using drag_moves_fields [of ?d ms'] onMouseDown_snapshot [OF assms(1), of s]
    by (simp_all add: onMouseMove_def applyTransform_fields)
  then show ?thesis by (simp add: ms drag_moves_snoc)
qed

text \<open>
  The example of the specification: from translation (0, 0), down at (100, 100), a move to
  (150, 130) and a move to (140, 150) end at translation (40, 50).
\<close>

theorem drag_from_snapshot_witness:
  "button (mouse_at 100 100) = 0 \<and> [mouse_at 150 130, mouse_at 140 150] \<noteq> []
   \<and> translateX (drag_moves (state_of (onMouseDown (mouse_at 100 100) ready))
        [mouse_at 150 130, mouse_at 140 150]) = 40
   \<and> translateY (drag_moves (state_of (onMouseDown (mouse_at 100 100) ready))
        [mouse_at 150 130, mouse_at 140 150]) = 50"
  using drag_from_snapshot [of "mouse_at 100 100" "[mouse_at 150 130, mouse_at 140 150]" ready]
        ready_fields
  by (simp add: mouse_at_def)

subsection \<open>The end of a touch\<close>

text \<open>
  Claim C4 says that \<open>lastPinchDist\<close> is zero after every touch-end that leaves exactly one
  touch. On the full page, a two-finger touch-start at (0, 0) and (3, 4) sets it to 5, and
  the touch-end that leaves the finger at (0, 0) keeps the 5.
\<close>

theorem onTouchEnd_one_left_counterexample:
  "length (touches one_left) = 1
   \<and> lastPinchDist (onTouchEnd one_left (onTouchStart pinch_start ready)) = 5"
  by (simp add: one_left_def pinch_start_def onTouchEnd_def onTouchStart_def getTouchDist_def
        touch_at_def sqrt_25)

text \<open>
  Claim C4, as the script has it: a touch-end resets the state only when no touch is left.
  Then \<open>isDragging\<close> becomes false and \<open>lastPinchDist\<close> zero, nothing else changes; a
  touch-end with a touch left changes nothing at all.
\<close>

theorem onTouchEnd_cases:
  "(touches e = [] \<longrightarrow> onTouchEnd e s = s\<lparr>isDragging := False, lastPinchDist := 0\<rparr>)
   \<and> (touches e \<noteq> [] \<longrightarrow> onTouchEnd e s = s)"
  by (simp add: onTouchEnd_def)

theorem onTouchEnd_cases_witness:
  "touches none_left = [] \<and> touches one_left \<noteq> []
   \<and> lastPinchDist (onTouchStart pinch_start ready) = 5
   \<and> lastPinchDist (onTouchEnd none_left (onTouchStart pinch_start ready)) = 0
   \<and> \<not> isDragging (onTouchEnd none_left (onTouchStart pinch_start ready))
   \<and> onTouchEnd one_left (onTouchStart pinch_start ready) = onTouchStart pinch_start ready"
  using onTouchEnd_cases [of none_left "onTouchStart pinch_start ready"]
        onTouchEnd_cases [of one_left "onTouchStart pinch_start ready"]
  by (simp add: none_left_def one_left_def pinch_start_def onTouchStart_def getTouchDist_def
        touch_at_def sqrt_25)

subsection \<open>Moves outside a drag\<close>

text \<open>
  Claim C5 says that a two-touch move without a two-touch start before it changes
  nothing. On the full page right after \<open>init\<close> (no drag, \<open>lastPinchDist = 0\<close>, scale 1), a
  move with touches at (0, 0) and (300, 400) has distance 500 and sets the scale to
  \<open>1 + 500 / 200 = 7/2\<close>.
\<close>

theorem onTouchMove_no_baseline_counterexample:
  "\<not> isDragging ready \<and> lastPinchDist ready = 0 \<and> scale ready = 1
   \<and> scale (fst (onTouchMove env0 two_fingers ready)) = 7 / 2"
  using ready_fields
  by (simp add: two_fingers_def onTouchMove_def Let_def getTouchDist_def touch_at_def
        sqrt_250000 zoomAround_scale clamp_def MIN_SCALE_def MAX_SCALE_def)

text \<open>
  Claim C5, as the script has it: a mouse-move while \<open>isDragging\<close> is false changes
  nothing, and neither does a touch-move while \<open>isDragging\<close> is false unless exactly two
  touches are down. A touch-move with exactly two touches is a pinch step whatever came
  before: with the wrapper resolved, the scale becomes
  \<open>clamp(scale + (dist - lastPinchDist) / 200, MIN_SCALE, MAX_SCALE)\<close> for the stored
  \<open>lastPinchDist\<close> (zero when no two-touch start has set it), and \<open>lastPinchDist\<close> becomes
  \<open>dist\<close>.
\<close>

theorem moves_without_drag:
  "(\<not> isDragging s \<longrightarrow> onMouseMove e s = s)
   \<and> (\<not> isDragging s \<and> length (touches t) \<noteq> 2 \<longrightarrow> onTouchMove b t s = (s, True))
   \<and> (length (touches t) = 2 \<and> mapWrapper s \<noteq> None \<longrightarrow>
        scale (fst (onTouchMove b t s))
          = clamp (scale s + (getTouchDist (touches t ! 0) (touches t ! 1) - lastPinchDist s) / 200)
              MIN_SCALE MAX_SCALE
      \<and> lastPinchDist (fst (onTouchMove b t s)) = getTouchDist (touches t ! 0) (touches t ! 1))"
  by (simp add: onMouseMove_def onTouchMove_def Let_def zoomAround_scale)

theorem moves_without_drag_witness:
  "\<not> isDragging ready \<and> length (touches one_left) \<noteq> 2
   \<and> length (touches two_fingers) = 2 \<and> mapWrapper ready \<noteq> None
   \<and> onMouseMove (mouse_at 10 20) ready = ready
   \<and> onTouchMove env0 one_left ready = (ready, True)
   \<and> scale (fst (onTouchMove env0 two_fingers ready)) = 7 / 2
   \<and> lastPinchDist (fst (onTouchMove env0 two_fingers ready)) = 500"
  using moves_without_drag [of ready "mouse_at 10 20" one_left env0]
        moves_without_drag [of ready "mouse_at 10 20" two_fingers env0] ready_fields
  by (simp add: one_left_def two_fingers_def getTouchDist_def touch_at_def sqrt_250000
        clamp_def MIN_SCALE_def MAX_SCALE_def)

subsection \<open>A page without the map\<close>

lemma public_step_absent:
  assumes "mapWrapper s = None" "scale s = 1" "translateX s = 0" "translateY s = 0"
    and "public_op (snd be)"
  shows "step s be = s"
proof (cases be)
  case (Pair b ev)
  have r: "resetView s = s"
    using assms(1-4) by (simp add: resetView_def applyTransform_absent)
  from assms(5) Pair have "ev = ZoomIn \<or> ev = ZoomOut \<or> ev = ResetView"
    by (simp add: public_op_def)
  with Pair r assms(1) show ?thesis
    by (auto simp add: zoomIn_def zoomOut_def Let_def zoomAround_absent)
qed

lemma public_run_absent:
  assumes "mapWrapper s = None" "scale s = 1" "translateX s = 0" "translateY s = 0"
    and "\<forall>be \<in> set evs. public_op (snd be)"
  shows "run s evs = s"
  using assms(5) unfolding run_def
  by (induction evs) (simp_all add: public_step_absent [OF assms(1-4)])

text \<open>
  Claim C6 says that \<open>zoomIn\<close> leaves the scale alone when the container or the wrapper is
  absent. On a page with the wrapper and without the container, \<open>init\<close> registers nothing
  and keeps the wrapper, and \<open>zoomIn\<close> then takes the scale from 1 to 6/5.
\<close>

theorem zoomIn_without_container_counterexample:
  "elem_mapContainer doc_no_container = None
   \<and> windowListeners (init doc_no_container initial) = []
   \<and> scale (init doc_no_container initial) = 1
   \<and> scale (zoomIn env0 (init doc_no_container initial)) = 6 / 5"
  by (simp add: doc_no_container_def init_def Let_def initial_def zoomIn_def zoomAround_scale
        clamp_def MIN_SCALE_def MAX_SCALE_def ZOOM_STEP_def)

text \<open>
  Claim C6, as the script has it. When the container or the wrapper is absent, \<open>init\<close>
  registers no listener on the window, the document or the container and writes nothing
  to the elements, and \<open>resetView\<close> leaves the transform at scale 1 and translation (0, 0),
  its initial values. When the wrapper is absent, every sequence of \<open>zoomIn\<close>, \<open>zoomOut\<close>
  and \<open>resetView\<close> calls leaves the whole state as \<open>init\<close> left it. When only the container
  is absent, \<open>zoomIn\<close> and \<open>zoomOut\<close> zoom around the centre of the window, to the scales
  \<open>1 + ZOOM_STEP\<close> and \<open>1 - ZOOM_STEP\<close>.
\<close>

theorem disabled_widget:
  assumes "elem_mapContainer d = None \<or> elem_mapWrapper d = None"
  shows "windowListeners (init d initial) = [] \<and> documentListeners (init d initial) = []
       \<and> mapContainer (init d initial) = elem_mapContainer d
       \<and> mapWrapper (init d initial) = elem_mapWrapper d
       \<and> zoomDisplay (init d initial) = elem_zoomLevel d
       \<and> scale (resetView (init d initial)) = 1
       \<and> translateX (resetView (init d initial)) = 0
       \<and> translateY (resetView (init d initial)) = 0
       \<and> (elem_mapWrapper d = None \<and> (\<forall>be \<in> set evs. public_op (snd be))
            \<longrightarrow> run (init d initial) evs = init d initial)
       \<and> (elem_mapWrapper d \<noteq> None \<longrightarrow>
            zoomIn b (init d initial)
              = zoomAround b (1 + ZOOM_STEP) (innerWidth b / 2) (innerHeight b / 2) (init d initial)
          \<and> scale (zoomIn b (init d initial)) = 1 + ZOOM_STEP
          \<and> zoomOut b (init d initial)
              = zoomAround b (1 - ZOOM_STEP) (innerWidth b / 2) (innerHeight b / 2) (init d initial)
          \<and> scale (zoomOut b (init d initial)) = 1 - ZOOM_STEP)"
proof -
  let ?s = "init d initial"
  have f: "scale ?s = 1" "translateX ?s = 0" "translateY ?s = 0"
    "mapWrapper ?s = elem_mapWrapper d" "mapContainer ?s = elem_mapContainer d"
    "zoomDisplay ?s = elem_zoomLevel d" "windowListeners ?s = []" "documentListeners ?s = []"
    using assms by (auto simp add: init_def Let_def initial_def)
  have run: "run ?s evs = ?s"
    if "elem_mapWrapper d = None" "\<forall>be \<in> set evs. public_op (snd be)"
    using that f by (intro public_run_absent) simp_all
  have c: "clamp (1 + ZOOM_STEP) MIN_SCALE MAX_SCALE = 1 + ZOOM_STEP"
    by (simp add: clamp_def MIN_SCALE_def MAX_SCALE_def ZOOM_STEP_def)
  have nz: "ZOOM_STEP \<noteq> 0"
    by (simp add: ZOOM_STEP_def)
  have z: "zoomIn b ?s = zoomAround b (1 + ZOOM_STEP) (innerWidth b / 2) (innerHeight b / 2) ?s"
    if "elem_mapWrapper d \<noteq> None"
  proof -
    from that assms have "mapContainer ?s = None" by (auto simp add: f)
    then show ?thesis
      using nz by (simp add: zoomIn_def Let_def f c centre_rect_def)
  qed
  have zs: "scale (zoomIn b ?s) = 1 + ZOOM_STEP" if "elem_mapWrapper d \<noteq> None"
    using that by (auto simp add: z zoomAround_scale f)
  have c': "clamp (1 - ZOOM_STEP) MIN_SCALE MAX_SCALE = 1 - ZOOM_STEP"
    by (simp add: clamp_def MIN_SCALE_def MAX_SCALE_def ZOOM_STEP_def)
  have o: "zoomOut b ?s = zoomAround b (1 - ZOOM_STEP) (innerWidth b / 2) (innerHeight b / 2) ?s"
    if "elem_mapWrapper d \<noteq> None"
  proof -
    from that assms have "mapContainer ?s = None" by (auto simp add: f)
    then show ?thesis
      using nz by (simp add: zoomOut_def Let_def f c' centre_rect_def)
  qed
  have os: "scale (zoomOut b ?s) = 1 - ZOOM_STEP" if "elem_mapWrapper d \<noteq> None"
    using that by (auto simp add: o zoomAround_scale f)
  show ?thesis
    using f run z zs o os by (simp add: resetView_def applyTransform_fields)
qed

text \<open>
  Without the wrapper, zoomIn, resetView and zoomOut in a row change nothing; without the
  container, zoomIn goes to scale 6/5 and zoomOut to scale 4/5.
\<close>

theorem disabled_widget_witness:
  "(elem_mapContainer doc_no_wrapper = None \<or> elem_mapWrapper doc_no_wrapper = None)
   \<and> public_op ZoomIn \<and> public_op ResetView \<and> public_op ZoomOut
   \<and> run (init doc_no_wrapper initial) [(env0, ZoomIn), (env0, ResetView), (env0, ZoomOut)]
       = init doc_no_wrapper initial
   \<and> windowListeners (init doc_no_wrapper initial) = []
   \<and> documentListeners (init doc_no_wrapper initial) = []
   \<and> mapContainer (init doc_no_wrapper initial) = Some el0
   \<and> (elem_mapContainer doc_no_container = None \<or> elem_mapWrapper doc_no_container = None)
   \<and> elem_mapWrapper doc_no_container \<noteq> None
   \<and> scale (zoomIn env0 (init doc_no_container initial)) = 6 / 5
   \<and> scale (zoomOut env0 (init doc_no_container initial)) = 4 / 5
   \<and> scale (resetView (init doc_no_container initial)) = 1"
  using disabled_widget [of doc_no_wrapper "[(env0, ZoomIn), (env0, ResetView), (env0, ZoomOut)]" env0]
        disabled_widget [of doc_no_container "[]" env0]
  by (simp add: doc_no_wrapper_def doc_no_container_def public_op_def ZOOM_STEP_def
        zoomAround_scale init_def Let_def initial_def)

end
